theory Spec2Isabelle
  imports Main "HOL-Library.Sublist" "HOL-Library.Char_ord" "HOL-Library.List_Lexorder"
begin

section \<open>Model download and UFF conversion utilities (Yolo/utils/model.py)\<close>

text \<open>
  A shallow embedding of \<^verbatim>\<open>src/Yolo/utils/model.py\<close>. Python strings and byte strings
  are \<open>string\<close> (lists of 8-bit characters, compared by code point as Python compares
  them). Exceptions are values of type \<open>error\<close>; a function that can raise and that acts
  on the outside world takes the world and returns its result together with the world
  it leaves behind, also when it raises.
\<close>

subsection \<open>Exceptions\<close>

datatype error =
    NotImplementedError string
  | Exception string
  | ValueError
  | ZeroDivisionError
  | IndexError
  | LibraryError string

subsection \<open>The functions of os.path used by the source (POSIX flavour)\<close>

text \<open>
  \<^verbatim>\<open>os.path.join\<close>, \<^verbatim>\<open>os.path.abspath\<close> and \<^verbatim>\<open>os.path.commonprefix\<close> belong to
  Python's standard library; they are written here after \<^verbatim>\<open>posixpath.py\<close>, statement
  by statement. The current working directory, which \<^verbatim>\<open>abspath\<close> reads with
  \<^verbatim>\<open>os.getcwd()\<close>, is the parameter \<open>cwd\<close>.
\<close>

definition sep :: char where
  "sep = CHR ''/''"

definition startswith :: "string \<Rightarrow> string \<Rightarrow> bool" where
  "startswith s p = prefix p s"

definition endswith :: "string \<Rightarrow> string \<Rightarrow> bool" where
  "endswith s p = suffix p s"

text \<open>\<^verbatim>\<open>join(a, b)\<close>: the loop of \<^verbatim>\<open>posixpath.join\<close> for the single component the source passes.\<close>

definition join :: "string \<Rightarrow> string \<Rightarrow> string" where
  "join a b =
     (if startswith b [sep] then b
      else if a = [] \<or> endswith a [sep] then a @ b
      else a @ [sep] @ b)"

text \<open>\<^verbatim>\<open>path.split('/')\<close>: never empty, \<^verbatim>\<open>''.split('/') == ['']\<close>.\<close>

fun split_sep :: "string \<Rightarrow> string list" where
  "split_sep [] = [[]]"
| "split_sep (c # cs) =
     (if c = sep then [] # split_sep cs
      else (case split_sep cs of
              [] \<Rightarrow> [[c]]
            | w # ws \<Rightarrow> (c # w) # ws))"

text \<open>\<^verbatim>\<open>'/'.join(comps)\<close>.\<close>

fun sep_join :: "string list \<Rightarrow> string" where
  "sep_join [] = []"
| "sep_join [w] = w"
| "sep_join (w # ws) = w @ [sep] @ sep_join ws"

text \<open>
  One round of the loop of \<^verbatim>\<open>normpath\<close>:
  \<^verbatim>\<open>
    if comp in (empty, dot): continue
    if (comp != dotdot or (not initial_slashes and not new_comps) or
         (new_comps and new_comps[-1] == dotdot)):
        new_comps.append(comp)
    elif new_comps:
        new_comps.pop()
  \<close>
\<close>

definition normpath_step :: "nat \<Rightarrow> string list \<Rightarrow> string \<Rightarrow> string list" where
  "normpath_step initial_slashes new_comps component =
     (if component = [] \<or> component = ''.'' then new_comps
      else if component \<noteq> ''..'' \<or> (initial_slashes = 0 \<and> new_comps = [])
              \<or> (new_comps \<noteq> [] \<and> last new_comps = ''..'')
        then new_comps @ [component]
      else if new_comps \<noteq> [] then butlast new_comps
      else new_comps)"

definition normpath :: "string \<Rightarrow> string" where
  "normpath path =
     (if path = [] then ''.''
      else
        let initial_slashes =
              (if startswith path [sep]
               then (if startswith path [sep, sep] \<and> \<not> startswith path [sep, sep, sep]
                     then 2 else 1)
               else 0);
            comps = foldl (normpath_step initial_slashes) [] (split_sep path);
            p = sep_join comps;
            p' = (if initial_slashes \<noteq> 0 then replicate initial_slashes sep @ p else p)
        in if p' = [] then ''.'' else p')"

definition isabs :: "string \<Rightarrow> bool" where
  "isabs s = startswith s [sep]"

definition abspath :: "string \<Rightarrow> string \<Rightarrow> string" where
  "abspath cwd path =
     (if \<not> isabs path then normpath (join cwd path) else normpath path)"

text \<open>
  \<^verbatim>\<open>commonprefix(m)\<close>:
  \<^verbatim>\<open>
    if not m: return ''
    s1 = min(m)
    s2 = max(m)
    for i, c in enumerate(s1):
        if c != s2[i]:
            return s1[:i]
    return s1
  \<close>
  \<open>commonprefix_scan s1 s2 i\<close> is the loop from index \<open>i\<close> on; reading \<open>s2[i]\<close> beyond the
  end of \<open>s2\<close> raises IndexError in Python and is a branch here.
\<close>

function commonprefix_scan :: "string \<Rightarrow> string \<Rightarrow> nat \<Rightarrow> error + string" where
  "commonprefix_scan s1 s2 i =
     (if i < length s1 then
        (if i < length s2 then
           (if s1 ! i \<noteq> s2 ! i then Inr (take i s1)
            else commonprefix_scan s1 s2 (Suc i))
         else Inl IndexError)
      else Inr s1)"
  by pat_completeness auto
termination
  by (relation "measure (\<lambda>(s1, s2, i). length s1 - i)") auto

declare commonprefix_scan.simps [simp del]

text \<open>Python's \<^verbatim>\<open>min\<close> and \<^verbatim>\<open>max\<close> of a non-empty list keep the first extremal element.\<close>

definition py_min :: "string list \<Rightarrow> string" where
  "py_min m = foldl (\<lambda>a b. if b < a then b else a) (hd m) (tl m)"

definition py_max :: "string list \<Rightarrow> string" where
  "py_max m = foldl (\<lambda>a b. if a < b then b else a) (hd m) (tl m)"

definition commonprefix :: "string list \<Rightarrow> error + string" where
  "commonprefix m =
     (if m = [] then Inr []
      else commonprefix_scan (py_min m) (py_max m) 0)"

subsection \<open>The path check of download_model\<close>

text \<open>
  \<^verbatim>\<open>
    def is_within_directory(directory, target):
        abs_directory = os.path.abspath(directory)
        abs_target = os.path.abspath(target)
        prefix = os.path.commonprefix([abs_directory, abs_target])
        return prefix == abs_directory
  \<close>
\<close>

definition is_within_directory :: "string \<Rightarrow> string \<Rightarrow> string \<Rightarrow> error + bool" where
  "is_within_directory cwd directory target =
     (let abs_directory = abspath cwd directory;
          abs_target = abspath cwd target
      in case commonprefix [abs_directory, abs_target] of
           Inl e \<Rightarrow> Inl e
         | Inr pfx \<Rightarrow> Inr (pfx = abs_directory))"

subsection \<open>The outside world\<close>

text \<open>
  What the program does to its surroundings is recorded twice: in the state it leaves
  (\<open>files\<close>: the contents of every regular file, by path; \<open>dirs\<close>: the directories) and in
  the \<open>trace\<close> of the calls it made, in order. A progress line is recorded with the two
  integers it is formatted from (the bytes received and the announced total), not with
  the text, which the source computes with floating-point division.
\<close>

datatype event =
    StdoutWrite string
  | StdoutProgress int int
  | StdoutFlush
  | PathExists string
  | Makedirs string
  | FileOpen string
  | FileWrite string string
  | FileClose string
  | HttpGet string
  | TarOpen string
  | TarClose string
  | Remove string
  | GraphLoad string

record world =
  files :: "string \<rightharpoonup> string"
  dirs :: "string set"
  trace :: "event list"

type_synonym 'a io = "world \<Rightarrow> (error + 'a) \<times> world"

definition io_return :: "'a \<Rightarrow> 'a io" where
  "io_return x w = (Inr x, w)"

definition io_raise :: "error \<Rightarrow> 'a io" where
  "io_raise e w = (Inl e, w)"

text \<open>Sequencing: an exception of the first part skips the second.\<close>

definition io_bind :: "'a io \<Rightarrow> ('a \<Rightarrow> 'b io) \<Rightarrow> 'b io" where
  "io_bind m f w = (case m w of (Inl e, w') \<Rightarrow> (Inl e, w') | (Inr x, w') \<Rightarrow> f x w')"

text \<open>
  Leaving a \<^verbatim>\<open>with\<close> block: the exit action runs on every path, and the result of the
  body, exception or not, is passed on.
\<close>

definition io_finally :: "'a io \<Rightarrow> (world \<Rightarrow> world) \<Rightarrow> 'a io" where
  "io_finally m fin w = (case m w of (r, w') \<Rightarrow> (r, fin w'))"

definition log :: "event \<Rightarrow> world \<Rightarrow> world" where
  "log e w = w\<lparr>trace := trace w @ [e]\<rparr>"

text \<open>\<^verbatim>\<open>print(x)\<close> writes \<open>x\<close> and a newline to stdout.\<close>

definition print :: "string \<Rightarrow> unit io" where
  "print x w = (Inr (), log (StdoutWrite (x @ [CHR 0x0A])) w)"

definition stdout_write :: "string \<Rightarrow> unit io" where
  "stdout_write x w = (Inr (), log (StdoutWrite x) w)"

definition stdout_flush :: "unit io" where
  "stdout_flush w = (Inr (), log StdoutFlush w)"

text \<open>
  \<^verbatim>\<open>open(path, "wb")\<close>, when it succeeds, creates the file or truncates it. Whether it
  succeeds is for the file system to say (see \<open>os_open_wb\<close> below).
\<close>

definition open_wb :: "string \<Rightarrow> world \<Rightarrow> world" where
  "open_wb path w = log (FileOpen path) (w\<lparr>files := (files w)(path \<mapsto> [])\<rparr>)"

text \<open>\<^verbatim>\<open>f.write(data)\<close> on a file opened so appends to what was written before.\<close>

definition file_write :: "string \<Rightarrow> string \<Rightarrow> unit io" where
  "file_write path data w =
     (Inr (),
      log (FileWrite path data)
        (w\<lparr>files := (files w)(path \<mapsto> (case files w path of None \<Rightarrow> data | Some old \<Rightarrow> old @ data))\<rparr>))"

definition file_close :: "string \<Rightarrow> world \<Rightarrow> world" where
  "file_close path w = log (FileClose path) w"

definition path_exists :: "string \<Rightarrow> bool io" where
  "path_exists path w = (Inr (path \<in> dirs w \<or> files w path \<noteq> None), log (PathExists path) w)"

definition makedirs :: "string \<Rightarrow> unit io" where
  "makedirs path w = (Inr (), log (Makedirs path) (w\<lparr>dirs := insert path (dirs w)\<rparr>))"

text \<open>\<^verbatim>\<open>os.remove(path)\<close> raises FileNotFoundError when there is no such file.\<close>

definition os_remove :: "string \<Rightarrow> unit io" where
  "os_remove path w =
     (case files w path of
        None \<Rightarrow> (Inl (LibraryError ''FileNotFoundError''), log (Remove path) w)
      | Some _ \<Rightarrow> (Inr (), log (Remove path) (w\<lparr>files := (files w)(path := None)\<rparr>)))"

subsection \<open>Library objects\<close>

text \<open>
  A \<^verbatim>\<open>requests\<close> response: its headers (looked up with \<^verbatim>\<open>headers.get\<close>), its whole body
  \<^verbatim>\<open>content\<close>, and the chunks \<^verbatim>\<open>iter_content(chunk_size)\<close> yields.
\<close>

record response =
  headers :: "string \<rightharpoonup> string"
  content :: string
  iter_content :: "nat \<Rightarrow> string list"

text \<open>A member of a tar archive (\<^verbatim>\<open>tarfile.TarInfo\<close>): its name and its data.\<close>

record TarInfo =
  name :: string
  data :: string

text \<open>An open archive; \<^verbatim>\<open>tar.getmembers()\<close> lists its members in order.\<close>

record TarFile =
  getmembers :: "TarInfo list"

subsection \<open>The graph library\<close>

text \<open>
  The source builds its nodes with \<^verbatim>\<open>gs.create_plugin_node\<close> and \<^verbatim>\<open>gs.create_node\<close> and
  rewrites the graph with \<^verbatim>\<open>collapse_namespaces\<close> and \<^verbatim>\<open>remove\<close> of the graphsurgeon
  library, whose code is not part of the source tree. The data model and these four
  operations follow the specification's description of them (its sections 3 and 4.2 and
  its glossary).
\<close>

text \<open>
  An attribute value as the source writes it: an integer, a decimal literal (kept as
  mantissa and decimal exponent, \<open>0.95\<close> is \<open>ADec 95 (-2)\<close>, \<open>1e-8\<close> is \<open>ADec 1 (-8)\<close>), or a
  list of those.
\<close>

datatype attr =
    AInt int
  | ADec int int
  | AList "attr list"

text \<open>
  Modelled from the spec: the node of graphsurgeon. "Graph Node: identified by name; has
  an operation type, a set of typed attributes (scalars, lists of numbers), and zero or
  more input references by name."
\<close>

record node =
  nname :: string
  op :: string
  attrs :: "(string \<times> attr) list"
  inputs :: "string list"

text \<open>
  Modelled from the spec: the graph of graphsurgeon, "a mutable collection of nodes"; its
  outputs are computed from the nodes (see \<open>graph_outputs\<close> below).
\<close>

record graph =
  nodes :: "node list"

text \<open>
  Modelled from the spec: \<^verbatim>\<open>gs.create_plugin_node(name, op, **kwargs)\<close> and
  \<^verbatim>\<open>gs.create_node(name, op, **kwargs)\<close>, absent from the source tree, make a node of
  that name and operation with the keyword arguments as attributes and no input.
\<close>

definition create_plugin_node :: "string \<Rightarrow> string \<Rightarrow> (string \<times> attr) list \<Rightarrow> node" where
  "create_plugin_node nm opr kwargs = \<lparr>nname = nm, op = opr, attrs = kwargs, inputs = []\<rparr>"

definition create_node :: "string \<Rightarrow> string \<Rightarrow> (string \<times> attr) list \<Rightarrow> node" where
  "create_node nm opr kwargs = \<lparr>nname = nm, op = opr, attrs = kwargs, inputs = []\<rparr>"

text \<open>
  Modelled from the spec: membership of a node name in a namespace, absent from the
  source tree. "every node in the graph whose name is or starts with that namespace
  (treated as a qualified prefix)": the name is the namespace or goes on after it with
  a slash.
\<close>

definition in_namespace :: "string \<Rightarrow> string \<Rightarrow> bool" where
  "in_namespace ns nm = (nm = ns \<or> prefix (ns @ ''/'') nm)"

text \<open>
  Modelled from the spec: the rewiring of one node, absent from the source tree.
  "inbound edges are rewired so that any external node previously referencing a
  collapsed node now references the replacement node".
\<close>

definition rewire :: "string \<Rightarrow> string \<Rightarrow> node \<Rightarrow> node" where
  "rewire ns new n = n\<lparr>inputs := map (\<lambda>i. if in_namespace ns i then new else i) (inputs n)\<rparr>"

text \<open>
  Modelled from the spec: the replacement node in the graph, absent from the source
  tree. Several namespaces may have the same replacement node ("collapse all of them
  into the single replacement node"); after the first of them the node is in the graph,
  with the inputs it has gathered: it is the node with the name, operation and
  attributes of the mapping's value.
\<close>

definition same_node :: "node \<Rightarrow> node \<Rightarrow> bool" where
  "same_node replacement n =
     (nname n = nname replacement \<and> op n = op replacement \<and> attrs n = attrs replacement)"

text \<open>
  Modelled from the spec: the edges that leave a set of collapsed nodes, absent from the
  source tree. "This step is a graph quotient operation: a set of original nodes
  becomes one node": the inputs of the collapsed nodes that are neither in the
  namespace nor the replacement node itself become inputs of the replacement node,
  each once.
\<close>

definition external_inputs :: "string \<Rightarrow> string \<Rightarrow> node list \<Rightarrow> string list" where
  "external_inputs ns new collapsed =
     remdups (filter (\<lambda>i. \<not> in_namespace ns i \<and> i \<noteq> new) (concat (map inputs collapsed)))"

definition absorb :: "string \<Rightarrow> string list \<Rightarrow> node \<Rightarrow> node" where
  "absorb ns ext n =
     n\<lparr>inputs := remdups (filter (\<lambda>i. \<not> in_namespace ns i) (inputs n) @ ext)\<rparr>"

text \<open>
  Modelled from the spec: what becomes of a node outside the namespace, absent from the
  source tree. The replacement node, when it is in the graph already, takes the edges
  that left the collapsed nodes; any other node has its references rewired.
\<close>

definition carry_over :: "string \<Rightarrow> node \<Rightarrow> string list \<Rightarrow> node \<Rightarrow> node" where
  "carry_over ns replacement ext n =
     (if same_node replacement n then absorb ns ext n
      else rewire ns (nname replacement) n)"

text \<open>
  Modelled from the spec: collapsing one entry of the mapping, absent from the source
  tree. "find every node in the graph whose name is or starts with that namespace and
  collapse all of them into the single replacement node: inbound edges are rewired so
  that any external node previously referencing a collapsed node now references the
  replacement node; the replacement node's name is taken as the mapping value's name.
  Nodes not covered by any mapping entry are left untouched. This step is a graph
  quotient operation"; "if a namespace in the mapping has no matching node in the
  graph, that mapping entry is a no-op". The nodes outside the namespace all stay, with
  their references into it rewired; the replacement node takes the edges that left the
  collapsed nodes, and is added unless it is in the graph already.
\<close>

definition collapse_namespace :: "string \<Rightarrow> node \<Rightarrow> graph \<Rightarrow> graph" where
  "collapse_namespace ns replacement g =
     (if \<not> (\<exists>n \<in> set (nodes g). in_namespace ns (nname n)) then g
      else
        let collapsed = filter (\<lambda>n. in_namespace ns (nname n)) (nodes g);
            kept = filter (\<lambda>n. \<not> in_namespace ns (nname n)) (nodes g);
            ext = external_inputs ns (nname replacement) collapsed;
            kept' = map (carry_over ns replacement ext) kept
        in g\<lparr>nodes := (if \<exists>n \<in> set kept. same_node replacement n then kept'
                        else kept' @ [absorb ns ext replacement])\<rparr>)"

text \<open>
  Modelled from the spec: \<^verbatim>\<open>DynamicGraph.collapse_namespaces\<close>, absent from the source
  tree. "given a graph and a fixed mapping from namespace name to replacement node, for
  each mapping entry [...]": the entries are taken in the order of the dictionary.
\<close>

definition collapse_namespaces :: "(string \<times> node) list \<Rightarrow> graph \<Rightarrow> graph" where
  "collapse_namespaces namespace_map g =
     foldl (\<lambda>g' (ns, replacement). collapse_namespace ns replacement g') g namespace_map"

text \<open>
  Modelled from the spec: \<^verbatim>\<open>DynamicGraph.graph_outputs\<close>, absent from the source tree.
  "terminal output nodes currently registered as the graph's external outputs": the
  nodes that no node of the graph has as an input.
\<close>

definition graph_outputs :: "graph \<Rightarrow> string list" where
  "graph_outputs g =
     map nname (filter (\<lambda>n. \<forall>m \<in> set (nodes g). nname n \<notin> set (inputs m)) (nodes g))"

text \<open>
  Modelled from the spec: the exclusive dependencies of a set of nodes, absent from the
  source tree. "Exclusive dependency: a node reachable only through a given node, with
  no other consumer." One round adds the nodes that have a consumer and whose consumers
  are all in the set already; as many rounds as the graph has nodes reach them all.
\<close>

definition consumers :: "graph \<Rightarrow> string \<Rightarrow> string list" where
  "consumers g d = map nname (filter (\<lambda>m. d \<in> set (inputs m)) (nodes g))"

definition exclusive_round :: "graph \<Rightarrow> string list \<Rightarrow> string list" where
  "exclusive_round g S =
     S @ map nname (filter (\<lambda>n. nname n \<notin> set S \<and> consumers g (nname n) \<noteq> []
                                  \<and> set (consumers g (nname n)) \<subseteq> set S) (nodes g))"

definition with_exclusive_dependencies :: "graph \<Rightarrow> string list \<Rightarrow> string list" where
  "with_exclusive_dependencies g S = ((exclusive_round g) ^^ (length (nodes g))) S"

text \<open>
  Modelled from the spec: \<^verbatim>\<open>DynamicGraph.remove(nodes, remove_exclusive_dependencies)\<close>,
  absent from the source tree. "remove them from the graph, EXCEPT do not
  cascade-remove their exclusive dependency subgraphs (a flag controls this)".
\<close>

definition remove :: "graph \<Rightarrow> string list \<Rightarrow> bool \<Rightarrow> graph" where
  "remove g names remove_exclusive_dependencies =
     (let gone = (if remove_exclusive_dependencies
                  then with_exclusive_dependencies g names else names)
      in g\<lparr>nodes := filter (\<lambda>n. nname n \<notin> set gone) (nodes g)\<rparr>)"

subsection \<open>UFF conversion\<close>

text \<open>The class \<^verbatim>\<open>ModelData\<close>: the metadata of the converted model.\<close>

definition INPUT_NAME :: string where
  "INPUT_NAME = ''Input''"

definition INPUT_SHAPE :: "int \<times> int \<times> int" where
  "INPUT_SHAPE = (3, 300, 300)"

definition OUTPUT_NAME :: string where
  "OUTPUT_NAME = ''NMS''"

definition get_input_channels :: int where
  "get_input_channels = fst INPUT_SHAPE"

definition get_input_height :: int where
  "get_input_height = fst (snd INPUT_SHAPE)"

definition get_input_width :: int where
  "get_input_width = snd (snd INPUT_SHAPE)"

text \<open>The plugin nodes that \<^verbatim>\<open>ssd_unsupported_nodes_to_plugin_nodes\<close> creates.\<close>

definition Input :: node where
  "Input = create_plugin_node ''Input'' ''Placeholder''
     [(''shape'', AList [AInt 1, AInt get_input_channels, AInt get_input_height,
                         AInt get_input_width])]"

definition PriorBox :: node where
  "PriorBox = create_plugin_node ''GridAnchor'' ''GridAnchor_TRT''
     [(''minSize'', ADec 2 (-1)),
      (''maxSize'', ADec 95 (-2)),
      (''aspectRatios'', AList [ADec 10 (-1), ADec 20 (-1), ADec 5 (-1), ADec 30 (-1), ADec 33 (-2)]),
      (''variance'', AList [ADec 1 (-1), ADec 1 (-1), ADec 2 (-1), ADec 2 (-1)]),
      (''featureMapShapes'', AList [AInt 19, AInt 10, AInt 5, AInt 3, AInt 2, AInt 1]),
      (''numLayers'', AInt 6)]"

definition NMS :: node where
  "NMS = create_plugin_node ''NMS'' ''NMS_TRT''
     [(''shareLocation'', AInt 1),
      (''varianceEncodedInTarget'', AInt 0),
      (''backgroundLabelId'', AInt 0),
      (''confidenceThreshold'', ADec 1 (-8)),
      (''nmsThreshold'', ADec 6 (-1)),
      (''topK'', AInt 100),
      (''keepTopK'', AInt 100),
      (''numClasses'', AInt 91),
      (''inputOrder'', AList [AInt 0, AInt 2, AInt 1]),
      (''confSigmoid'', AInt 1),
      (''isNormalized'', AInt 1)]"

definition concat_priorbox :: node where
  "concat_priorbox = create_node ''concat_priorbox'' ''ConcatV2'' [(''axis'', AInt 2)]"

definition concat_box_loc :: node where
  "concat_box_loc = create_plugin_node ''concat_box_loc'' ''FlattenConcat_TRT''
     [(''axis'', AInt 1), (''ignoreBatch'', AInt 0)]"

definition concat_box_conf :: node where
  "concat_box_conf = create_plugin_node ''concat_box_conf'' ''FlattenConcat_TRT''
     [(''axis'', AInt 1), (''ignoreBatch'', AInt 0)]"

text \<open>The mapping of namespace names to plugin nodes, in the order of the dictionary.\<close>

definition namespace_plugin_map :: "(string \<times> node) list" where
  "namespace_plugin_map =
     [(''MultipleGridAnchorGenerator'', PriorBox),
      (''Postprocessor'', NMS),
      (''Preprocessor'', Input),
      (''ToFloat'', Input),
      (''image_tensor'', Input),
      (''MultipleGridAnchorGenerator/Concatenate'', concat_priorbox),
      (''MultipleGridAnchorGenerator/Identity'', concat_priorbox),
      (''concat'', concat_box_loc),
      (''concat_1'', concat_box_conf)]"

text \<open>
  \<^verbatim>\<open>
    ssd_graph.collapse_namespaces(namespace_plugin_map)
    ssd_graph.remove(ssd_graph.graph_outputs, remove_exclusive_dependencies=False)
    return ssd_graph
  \<close>
\<close>

definition ssd_unsupported_nodes_to_plugin_nodes :: "graph \<Rightarrow> graph" where
  "ssd_unsupported_nodes_to_plugin_nodes ssd_graph =
     (let collapsed = collapse_namespaces namespace_plugin_map ssd_graph
      in remove collapsed (graph_outputs collapsed) False)"

subsection \<open>The libraries the program calls\<close>

text \<open>
  What the program gets from its surroundings and from the libraries whose behaviour it
  does not fix is a parameter: the paths and URLs of \<^verbatim>\<open>utils.paths.PATHS\<close>, the working
  directory, the answer of the server, the reading and unpacking of a tar archive, the
  loading of a frozen graph and the writing of a UFF file. So is the verdict of the file
  system on \<^verbatim>\<open>open(path, "wb")\<close>: \<open>os_open_wb path w\<close> is the exception it raises in the
  world \<open>w\<close> (FileNotFoundError when the directory of \<open>path\<close> does not exist,
  PermissionError, and so on), or \<open>None\<close> when the file is opened.
\<close>

record env =
  os_getcwd :: string
  os_open_wb :: "string \<Rightarrow> world \<Rightarrow> error option"
  PATHS_get_models_dir_path :: string
  PATHS_get_model_url :: "string \<Rightarrow> string"
  PATHS_get_model_pb_path :: "string \<Rightarrow> string"
  PATHS_get_model_uff_path :: "string \<Rightarrow> string"
  requests_get :: "string \<Rightarrow> error + response"
  tarfile_open :: "string \<Rightarrow> error + TarFile"
  tar_extractall :: "TarFile \<Rightarrow> string \<Rightarrow> TarInfo list option \<Rightarrow> bool \<Rightarrow> unit io"
  gs_DynamicGraph :: "string \<Rightarrow> error + graph"
  uff_from_tensorflow :: "graph \<Rightarrow> string list \<Rightarrow> string \<Rightarrow> bool \<Rightarrow> unit io"

subsection \<open>Python's int() on a string\<close>

text \<open>
  \<^verbatim>\<open>int(s)\<close> in base 10: white space around the number is dropped, a sign may come first,
  then decimal digits, single underscores allowed between two digits; anything else
  raises ValueError (\<open>None\<close> here). The white space is what the C function
  \<^verbatim>\<open>PyLong_FromString\<close> skips (space, \<^verbatim>\<open>\t \n \v \f \r\<close>) and, of the characters above
  ASCII that a header can hold, the two Unicode spaces U+0085 and U+00A0, which
  \<^verbatim>\<open>int\<close> turns into spaces first; the separators U+001C to U+001F are not skipped. A
  number of more than 4300 digits raises ValueError too (the default of
  \<^verbatim>\<open>sys.int_max_str_digits\<close>).
\<close>

definition is_space :: "char \<Rightarrow> bool" where
  "is_space c = (let k = (of_char c :: nat)
                 in (9 \<le> k \<and> k \<le> 13) \<or> k = 32 \<or> k = 133 \<or> k = 160)"

definition is_digit :: "char \<Rightarrow> bool" where
  "is_digit c = (let k = (of_char c :: nat) in 48 \<le> k \<and> k \<le> 57)"

definition strip :: "string \<Rightarrow> string" where
  "strip s = rev (dropWhile is_space (rev (dropWhile is_space s)))"

fun digits_value :: "nat \<Rightarrow> string \<Rightarrow> nat option" where
  "digits_value acc [] = Some acc"
| "digits_value acc (c # cs) =
     (if is_digit c then digits_value (10 * acc + (of_char c - 48)) cs
      else if c = CHR ''_'' \<and> cs \<noteq> [] \<and> is_digit (hd cs) then digits_value acc cs
      else None)"

definition int_max_str_digits :: nat where
  "int_max_str_digits = 4300"

definition unsigned_value :: "string \<Rightarrow> nat option" where
  "unsigned_value s =
     (if s \<noteq> [] \<and> is_digit (hd s) \<and> length (filter is_digit s) \<le> int_max_str_digits
      then digits_value 0 s else None)"

definition py_int :: "string \<Rightarrow> int option" where
  "py_int s =
     (case strip s of
        [] \<Rightarrow> None
      | c # cs \<Rightarrow>
          if c = CHR ''-'' then map_option (\<lambda>n. - int n) (unsigned_value cs)
          else if c = CHR ''+'' then map_option int (unsigned_value cs)
          else map_option int (unsigned_value (c # cs)))"

subsection \<open>Model download\<close>

text \<open>
  \<^verbatim>\<open>
    def maybe_print(should_print, print_arg):
        if should_print:
            print(print_arg)
  \<close>
\<close>

definition maybe_print :: "bool \<Rightarrow> string \<Rightarrow> unit io" where
  "maybe_print should_print print_arg =
     (if should_print then print print_arg else io_return ())"

text \<open>
  \<^verbatim>\<open>
    def maybe_mkdir(dir_path):
        if not os.path.exists(dir_path):
            os.makedirs(dir_path)
  \<close>
\<close>

definition maybe_mkdir :: "string \<Rightarrow> unit io" where
  "maybe_mkdir dir_path =
     io_bind (path_exists dir_path)
       (\<lambda>ex. if \<not> ex then makedirs dir_path else io_return ())"

text \<open>
  The loop of \<^verbatim>\<open>download_file\<close> over the chunks still to come, \<open>dl\<close> bytes having been
  written:
  \<^verbatim>\<open>
    for data in response.iter_content(chunk_size=4096):
        dl += len(data)
        f.write(data)
        done = int(50 * dl / total_length)
        sys.stdout.write("\rDownload progress [{}{}] {}%".format(
            '=' * done, ' ' * (50-done), int(100 * dl / total_length)))
        sys.stdout.flush()
  \<close>
  The division raises ZeroDivisionError when \<open>total_length\<close> is zero, after the chunk has
  been written.
\<close>

fun download_loop :: "string \<Rightarrow> int \<Rightarrow> int \<Rightarrow> string list \<Rightarrow> unit io" where
  "download_loop f total_length dl [] = io_return ()"
| "download_loop f total_length dl (chunk # rest) =
     (let dl' = dl + int (length chunk)
      in io_bind (file_write f chunk)
           (\<lambda>_. if total_length = 0 then io_raise ZeroDivisionError
                 else io_bind (\<lambda>w. (Inr (), log (StdoutProgress dl' total_length) w))
                        (\<lambda>_. io_bind stdout_flush
                           (\<lambda>_. download_loop f total_length dl' rest))))"

text \<open>
  \<^verbatim>\<open>
    def download_file(file_url, file_dest_path, silent=False):
        with open(file_dest_path, "wb") as f:
            maybe_print(not silent, "Downloading {}".format(file_dest_path))
            response = requests.get(file_url, stream=True)
            total_length = response.headers.get('content-length')
            if total_length is None or silent:
                f.write(response.content)
            else:
                dl = 0
                total_length = int(total_length)
                for data in response.iter_content(chunk_size=4096): ...
                sys.stdout.write("\n")
                sys.stdout.flush()
  \<close>
\<close>

definition http_get :: "env \<Rightarrow> string \<Rightarrow> response io" where
  "http_get E file_url w =
     (case requests_get E file_url of
        Inl e \<Rightarrow> (Inl e, log (HttpGet file_url) w)
      | Inr r \<Rightarrow> (Inr r, log (HttpGet file_url) w))"

definition download_body :: "string \<Rightarrow> bool \<Rightarrow> response \<Rightarrow> unit io" where
  "download_body file_dest_path silent resp =
     (let total_length = headers resp ''content-length''
      in case total_length of
           None \<Rightarrow> file_write file_dest_path (content resp)
         | Some txt \<Rightarrow>
             if silent then file_write file_dest_path (content resp)
             else (case py_int txt of
                     None \<Rightarrow> io_raise ValueError
                   | Some total_len \<Rightarrow>
                       io_bind (download_loop file_dest_path total_len 0 (iter_content resp 4096))
                         (\<lambda>_. io_bind (stdout_write [CHR 0x0A]) (\<lambda>_. stdout_flush))))"

text \<open>
  When \<^verbatim>\<open>open\<close> raises, the \<^verbatim>\<open>with\<close> block is not entered: nothing is printed, requested
  or written, and there is no file to close.
\<close>

definition download_file :: "env \<Rightarrow> string \<Rightarrow> string \<Rightarrow> bool \<Rightarrow> unit io" where
  "download_file E file_url file_dest_path silent w =
     (case os_open_wb E file_dest_path w of
        Some e \<Rightarrow> (Inl e, log (FileOpen file_dest_path) w)
      | None \<Rightarrow>
          io_finally
            (io_bind (maybe_print (\<not> silent) (''Downloading '' @ file_dest_path))
               (\<lambda>_. io_bind (http_get E file_url)
                  (\<lambda>resp. download_body file_dest_path silent resp)))
            (file_close file_dest_path)
            (open_wb file_dest_path w))"

text \<open>
  \<^verbatim>\<open>
    def safe_extract(tar, path=".", members=None, *, numeric_owner=False):
        for member in tar.getmembers():
            member_path = os.path.join(path, member.name)
            if not is_within_directory(path, member_path):
                raise Exception("Attempted Path Traversal in Tar File")
        tar.extractall(path, members, numeric_owner=numeric_owner)
  \<close>
  \<open>check_members\<close> is the loop, over the members still to check.
\<close>

fun check_members :: "string \<Rightarrow> string \<Rightarrow> TarInfo list \<Rightarrow> error + unit" where
  "check_members cwd path [] = Inr ()"
| "check_members cwd path (member # rest) =
     (let member_path = join path (name member)
      in case is_within_directory cwd path member_path of
           Inl e \<Rightarrow> Inl e
         | Inr within \<Rightarrow>
             if \<not> within then Inl (Exception ''Attempted Path Traversal in Tar File'')
             else check_members cwd path rest)"

definition safe_extract ::
  "env \<Rightarrow> TarFile \<Rightarrow> string \<Rightarrow> TarInfo list option \<Rightarrow> bool \<Rightarrow> unit io" where
  "safe_extract E tar path members numeric_owner w =
     (case check_members (os_getcwd E) path (getmembers tar) of
        Inl e \<Rightarrow> (Inl e, w)
      | Inr _ \<Rightarrow> tar_extractall E tar path members numeric_owner w)"

text \<open>
  \<^verbatim>\<open>
    def download_model(model_name, silent=False):
        maybe_print(not silent, "Preparing pretrained model")
        model_dir = PATHS.get_models_dir_path()
        maybe_mkdir(model_dir)
        model_url = PATHS.get_model_url(model_name)
        model_archive_path = os.path.join(model_dir, "{}.tar.gz".format(model_name))
        download_file(model_url, model_archive_path, silent)
        maybe_print(not silent, "Download complete\nUnpacking {}".format(model_archive_path))
        with tarfile.open(model_archive_path, "r:gz") as tar:
            safe_extract(tar, path=model_dir)
        maybe_print(not silent, "Extracting complete\nRemoving {}".format(model_archive_path))
        os.remove(model_archive_path)
        maybe_print(not silent, "Model ready")
  \<close>
  \<^verbatim>\<open>tarfile.open\<close> reads the archive file; when it raises, the \<^verbatim>\<open>with\<close> block is not
  entered.
\<close>

definition tar_open :: "env \<Rightarrow> string \<Rightarrow> TarFile io" where
  "tar_open E path w =
     (case files w path of
        None \<Rightarrow> (Inl (LibraryError ''FileNotFoundError''), log (TarOpen path) w)
      | Some bytes \<Rightarrow>
          (case tarfile_open E bytes of
             Inl e \<Rightarrow> (Inl e, log (TarOpen path) w)
           | Inr tar \<Rightarrow> (Inr tar, log (TarOpen path) w)))"

definition download_model :: "env \<Rightarrow> string \<Rightarrow> bool \<Rightarrow> unit io" where
  "download_model E model_name silent =
     io_bind (maybe_print (\<not> silent) ''Preparing pretrained model'')
       (\<lambda>_. let model_dir = PATHS_get_models_dir_path E
             in io_bind (maybe_mkdir model_dir)
       (\<lambda>_. let model_url = PATHS_get_model_url E model_name;
                 model_archive_path = join model_dir (model_name @ ''.tar.gz'')
             in io_bind (download_file E model_url model_archive_path silent)
       (\<lambda>_. io_bind (maybe_print (\<not> silent)
                        (''Download complete'' @ [CHR 0x0A] @ ''Unpacking '' @ model_archive_path))
       (\<lambda>_. io_bind (tar_open E model_archive_path)
       (\<lambda>tar. io_bind (io_finally (safe_extract E tar model_dir None False)
                          (log (TarClose model_archive_path)))
       (\<lambda>_. io_bind (maybe_print (\<not> silent)
                        (''Extracting complete'' @ [CHR 0x0A] @ ''Removing '' @ model_archive_path))
       (\<lambda>_. io_bind (os_remove model_archive_path)
       (\<lambda>_. maybe_print (\<not> silent) ''Model ready''))))))))"

text \<open>
  \<^verbatim>\<open>
    def model_to_uff(model_path, output_uff_path, silent=False):
        dynamic_graph = gs.DynamicGraph(model_path)
        dynamic_graph = ssd_unsupported_nodes_to_plugin_nodes(dynamic_graph)
        uff.from_tensorflow(dynamic_graph.as_graph_def(), [ModelData.OUTPUT_NAME],
            output_filename=output_uff_path, text=True)
  \<close>
\<close>

definition load_graph :: "env \<Rightarrow> string \<Rightarrow> graph io" where
  "load_graph E model_path w =
     (case files w model_path of
        None \<Rightarrow> (Inl (LibraryError ''FileNotFoundError''), log (GraphLoad model_path) w)
      | Some bytes \<Rightarrow>
          (case gs_DynamicGraph E bytes of
             Inl e \<Rightarrow> (Inl e, log (GraphLoad model_path) w)
           | Inr g \<Rightarrow> (Inr g, log (GraphLoad model_path) w)))"

definition model_to_uff :: "env \<Rightarrow> string \<Rightarrow> string \<Rightarrow> bool \<Rightarrow> unit io" where
  "model_to_uff E model_path output_uff_path silent =
     io_bind (load_graph E model_path)
       (\<lambda>dynamic_graph.
          let dynamic_graph' = ssd_unsupported_nodes_to_plugin_nodes dynamic_graph
          in uff_from_tensorflow E dynamic_graph' [OUTPUT_NAME] output_uff_path True)"

text \<open>
  \<^verbatim>\<open>
    def prepare_ssd_model(model_name="ssd_inception_v2_coco_2017_11_17", silent=False):
        if model_name != "ssd_inception_v2_coco_2017_11_17":
            raise NotImplementedError(
                "Model {} is not supported yet".format(model_name))
        download_model(model_name, silent)
        ssd_pb_path = PATHS.get_model_pb_path(model_name)
        ssd_uff_path = PATHS.get_model_uff_path(model_name)
        model_to_uff(ssd_pb_path, ssd_uff_path, silent)
  \<close>
  A call without arguments is \<open>prepare_ssd_model E default_model_name False\<close>.
\<close>

definition default_model_name :: string where
  "default_model_name = ''ssd_inception_v2_coco_2017_11_17''"

definition prepare_ssd_model :: "env \<Rightarrow> string \<Rightarrow> bool \<Rightarrow> unit io" where
  "prepare_ssd_model E model_name silent =
     (if model_name \<noteq> ''ssd_inception_v2_coco_2017_11_17''
      then io_raise (NotImplementedError (''Model '' @ model_name @ '' is not supported yet''))
      else io_bind (download_model E model_name silent)
             (\<lambda>_. let ssd_pb_path = PATHS_get_model_pb_path E model_name;
                       ssd_uff_path = PATHS_get_model_uff_path E model_name
                   in model_to_uff E ssd_pb_path ssd_uff_path silent))"

subsection \<open>Notions of the specification\<close>

text \<open>
  "Destination paths strictly inside the target directory", on absolute normalised
  paths: the destination is the directory, a separator (unless the directory ends with
  one already, as the root does) and something more.
\<close>

definition strictly_inside :: "string \<Rightarrow> string \<Rightarrow> bool" where
  "strictly_inside abs_directory abs_target =
     (let d = (if endswith abs_directory [sep] then abs_directory else abs_directory @ [sep])
      in prefix d abs_target \<and> abs_target \<noteq> d)"

text \<open>The data of the \<^verbatim>\<open>f.write\<close> calls on the file at \<open>path\<close>, in the order of the trace.\<close>

fun file_writes :: "string \<Rightarrow> event list \<Rightarrow> string list" where
  "file_writes path [] = []"
| "file_writes path (FileWrite p d # es) =
     (if p = path then d # file_writes path es else file_writes path es)"
| "file_writes path (_ # es) = file_writes path es"

text \<open>
  What streaming a list of chunks leaves in the trace: for each chunk in turn its write,
  then the progress line for the bytes written so far, then the flush.
\<close>

fun stream_events :: "string \<Rightarrow> int \<Rightarrow> int \<Rightarrow> string list \<Rightarrow> event list" where
  "stream_events path total_length dl [] = []"
| "stream_events path total_length dl (chunk # rest) =
     [FileWrite path chunk, StdoutProgress (dl + int (length chunk)) total_length, StdoutFlush]
       @ stream_events path total_length (dl + int (length chunk)) rest"

subsection \<open>Example surroundings\<close>

text \<open>
  A file system that opens every file, a server that answers every request with a
  two-byte body in two chunks, an archive
  with one member, an unpacking that writes every member below the directory, a graph
  with one detection output fed by the post-processing namespace.
\<close>

definition example_response :: response where
  "example_response =
     \<lparr>headers = [''content-length'' \<mapsto> ''2''],
      content = ''ab'',
      iter_content = (\<lambda>chunk_size. [''a'', ''b''])\<rparr>"

definition example_tar :: TarFile where
  "example_tar = \<lparr>getmembers = [\<lparr>name = ''ssd/frozen_inference_graph.pb'', data = ''pb''\<rparr>]\<rparr>"

definition example_graph :: graph where
  "example_graph =
     \<lparr>nodes =
        [\<lparr>nname = ''FeatureExtractor/conv'', op = ''Conv2D'', attrs = [], inputs = [''Preprocessor/sub'']\<rparr>,
         \<lparr>nname = ''Preprocessor/sub'', op = ''Sub'', attrs = [], inputs = [''image_tensor'']\<rparr>,
         \<lparr>nname = ''image_tensor'', op = ''Placeholder'', attrs = [], inputs = []\<rparr>,
         \<lparr>nname = ''Postprocessor/foo'', op = ''Mul'', attrs = [], inputs = [''FeatureExtractor/conv'']\<rparr>,
         \<lparr>nname = ''Postprocessor/bar'', op = ''Add'', attrs = [], inputs = [''Postprocessor/foo'']\<rparr>,
         \<lparr>nname = ''detection_boxes'', op = ''Identity'', attrs = [],
          inputs = [''Postprocessor/foo'', ''Postprocessor/bar'']\<rparr>]\<rparr>"

definition example_extractall :: "TarFile \<Rightarrow> string \<Rightarrow> TarInfo list option \<Rightarrow> bool \<Rightarrow> unit io" where
  "example_extractall tar path members numeric_owner w =
     (Inr (),
      w\<lparr>files := foldl (\<lambda>fs m. fs(join path (name m) \<mapsto> data m)) (files w)
                   (case members of None \<Rightarrow> getmembers tar | Some ms \<Rightarrow> ms)\<rparr>)"

definition example_env :: env where
  "example_env =
     \<lparr>os_getcwd = ''/home/user'',
      os_open_wb = (\<lambda>path w. None),
      PATHS_get_models_dir_path = ''/models'',
      PATHS_get_model_url = (\<lambda>n. ''http://zoo/'' @ n @ ''.tar.gz''),
      PATHS_get_model_pb_path = (\<lambda>n. ''/models/ssd/frozen_inference_graph.pb''),
      PATHS_get_model_uff_path = (\<lambda>n. ''/models/ssd/frozen_inference_graph.uff''),
      requests_get = (\<lambda>url. Inr example_response),
      tarfile_open = (\<lambda>bytes. Inr example_tar),
      tar_extractall = example_extractall,
      gs_DynamicGraph = (\<lambda>bytes. Inr example_graph),
      uff_from_tensorflow = (\<lambda>g outs path text w. (Inr (), w\<lparr>files := (files w)(path \<mapsto> ''uff'')\<rparr>))\<rparr>"

definition example_world :: world where
  "example_world = \<lparr>files = Map.empty, dirs = {}, trace = []\<rparr>"


text \<open>
  Two answers of a misbehaving server, both with the body \<open>ab\<close> in two chunks: one sent
  with chunked transfer encoding and a content-length of zero beside it, one with the
  content-length header repeated, which the client library hands over joined by a
  comma.
\<close>

definition zero_length_response :: response where
  "zero_length_response =
     \<lparr>headers = [''transfer-encoding'' \<mapsto> ''chunked'', ''content-length'' \<mapsto> ''0''],
      content = ''ab'',
      iter_content = (\<lambda>chunk_size. [''a'', ''b''])\<rparr>"

definition repeated_length_response :: response where
  "repeated_length_response =
     \<lparr>headers = [''content-length'' \<mapsto> ''2, 2''],
      content = ''ab'',
      iter_content = (\<lambda>chunk_size. [''a'', ''b''])\<rparr>"

text \<open>
  The node that stands for a node after collapsing, by name: the node itself while no
  entry covers it, the replacement node of the entry that collapses it from then on.
\<close>

definition stand_in :: "(string \<times> node) list \<Rightarrow> string \<Rightarrow> string" where
  "stand_in namespace_map nm =
     foldl (\<lambda>x (ns, replacement). if in_namespace ns x then nname replacement else x)
       nm namespace_map"

text \<open>
  "Upstream dependency node" of a node named \<open>out\<close>: a name among the inputs of the node,
  or among the inputs of a node of that kind, and so on.
\<close>

inductive upstream :: "graph \<Rightarrow> string \<Rightarrow> string \<Rightarrow> bool" for g :: graph where
  direct: "m \<in> set (nodes g) \<Longrightarrow> nname m = out \<Longrightarrow> d \<in> set (inputs m) \<Longrightarrow> upstream g out d"
| further: "upstream g out d \<Longrightarrow> m \<in> set (nodes g) \<Longrightarrow> nname m = d \<Longrightarrow> d' \<in> set (inputs m)
            \<Longrightarrow> upstream g out d'"

text \<open>The example graph without its detection output: the collapsed node is the output.\<close>

definition headless_graph :: graph where
  "headless_graph =
     \<lparr>nodes =
        [\<lparr>nname = ''FeatureExtractor/conv'', op = ''Conv2D'', attrs = [], inputs = [''Preprocessor/sub'']\<rparr>,
         \<lparr>nname = ''Preprocessor/sub'', op = ''Sub'', attrs = [], inputs = [''image_tensor'']\<rparr>,
         \<lparr>nname = ''image_tensor'', op = ''Placeholder'', attrs = [], inputs = []\<rparr>,
         \<lparr>nname = ''Postprocessor/foo'', op = ''Mul'', attrs = [], inputs = [''FeatureExtractor/conv'']\<rparr>,
         \<lparr>nname = ''Postprocessor/bar'', op = ''Add'', attrs = [], inputs = [''Postprocessor/foo'']\<rparr>]\<rparr>"

section \<open>Properties\<close>

subsection \<open>The path check is a string-prefix test\<close>

lemma lcp_of_prefix: "prefix xs ys \<Longrightarrow> longest_common_prefix xs ys = xs"
  by (induction xs ys rule: longest_common_prefix.induct) auto

lemma lcp_commute: "longest_common_prefix xs ys = longest_common_prefix ys xs"
proof (induction xs arbitrary: ys)
  case Nil
  then show ?case by (cases ys) simp_all
next
  case (Cons x xs)
  then show ?case by (cases ys) simp_all
qed

lemma lcp_split: "a \<noteq> b \<Longrightarrow> longest_common_prefix (p @ a # x) (p @ b # y) = p"
  by (induction p) auto

lemma lcp_mismatch:
  assumes "i < length s1" "i < length s2" "take i s1 = take i s2" "s1 ! i \<noteq> s2 ! i"
  shows "longest_common_prefix s1 s2 = take i s1"
proof -
  have a: "s1 = take i s1 @ s1 ! i # drop (Suc i) s1"
    using assms(1) by (simp add: id_take_nth_drop)
  have b: "s2 = take i s1 @ s2 ! i # drop (Suc i) s2"
    using assms(2,3) by (simp add: id_take_nth_drop)
  show ?thesis
    using lcp_split [OF assms(4), of "take i s1" "drop (Suc i) s1" "drop (Suc i) s2"] a b
    by simp
qed

lemma lcp_eq_left_iff: "longest_common_prefix a b = a \<longleftrightarrow> prefix a b"
  by (metis lcp_of_prefix longest_common_prefix_prefix2)

lemma proper_prefix_less:
  fixes s1 s2 :: string
  assumes "prefix s2 s1" "s2 \<noteq> s1"
  shows "s2 < s1"
proof -
  from assms obtain r where r: "s1 = s2 @ r" "r \<noteq> []"
    by (auto simp: prefix_def)
  then obtain c cs where "r = c # cs" by (cases r) auto
  with r show ?thesis
    by (simp add: list_less_def lexord_append_rightI)
qed

lemma commonprefix_scan_eq:
  "i \<le> length s1 \<Longrightarrow> i \<le> length s2 \<Longrightarrow> take i s1 = take i s2 \<Longrightarrow>
   commonprefix_scan s1 s2 i =
     (if prefix s2 s1 \<and> s2 \<noteq> s1 then Inl IndexError
      else Inr (longest_common_prefix s1 s2))"
proof (induction s1 s2 i rule: commonprefix_scan.induct)
  case (1 s1 s2 i)
  show ?case
  proof (cases "i < length s1")
    case False
    with "1.prems" have "s1 = take i s2" by simp
    then have p: "prefix s1 s2" by (metis take_is_prefix)
    then have "\<not> (prefix s2 s1 \<and> s2 \<noteq> s1)" by (auto dest: prefix_order.antisym)
    with False p show ?thesis
      by (subst commonprefix_scan.simps) (simp add: lcp_of_prefix)
  next
    case i1: True
    show ?thesis
    proof (cases "i < length s2")
      case False
      with "1.prems" have "s2 = take i s1" by simp
      then have "prefix s2 s1" by (metis take_is_prefix)
      moreover have "s2 \<noteq> s1" using i1 False by auto
      ultimately show ?thesis using i1 False
        by (subst commonprefix_scan.simps) simp
    next
      case i2: True
      show ?thesis
      proof (cases "s1 ! i = s2 ! i")
        case False
        have np: "\<not> prefix s2 s1"
        proof
          assume "prefix s2 s1"
          then have "s1 ! i = s2 ! i" using i2 by (auto simp: prefix_def nth_append)
          with False show False by simp
        qed
        show ?thesis using i1 i2 False np lcp_mismatch [OF i1 i2 "1.prems"(3) False]
          by (subst commonprefix_scan.simps) simp
      next
        case True
        have t: "take (Suc i) s1 = take (Suc i) s2"
          using i1 i2 True "1.prems"(3) by (simp add: take_Suc_conv_app_nth)
        have "commonprefix_scan s1 s2 (Suc i) =
           (if prefix s2 s1 \<and> s2 \<noteq> s1 then Inl IndexError
            else Inr (longest_common_prefix s1 s2))"
          using "1.IH" [OF i1 i2] True i1 i2 t by simp
        then show ?thesis using i1 i2 True
          by (subst commonprefix_scan.simps) simp
      qed
    qed
  qed
qed

lemma py_min_max_pair:
  "(py_min [a, b], py_max [a, b]) = (if b < a then (b, a) else (a, b))"
  by (auto simp: py_min_def py_max_def dest: less_asym)

lemma commonprefix_pair:
  "commonprefix [a, b] = Inr (longest_common_prefix a b)"
proof (cases "b < a")
  case True
  have "\<not> (prefix a b \<and> a \<noteq> b)"
    using True proper_prefix_less [where ?s2.0 = a and ?s1.0 = b] by (auto dest: less_asym)
  moreover have "py_min [a, b] = b" "py_max [a, b] = a"
    using True py_min_max_pair [of a b] by simp_all
  ultimately show ?thesis
    by (simp add: commonprefix_def commonprefix_scan_eq lcp_commute [of b a])
next
  case False
  have "\<not> (prefix b a \<and> b \<noteq> a)"
    using False proper_prefix_less [where ?s2.0 = b and ?s1.0 = a] by auto
  moreover have "py_min [a, b] = a" "py_max [a, b] = b"
    using False py_min_max_pair [of a b] by simp_all
  ultimately show ?thesis
    by (simp add: commonprefix_def commonprefix_scan_eq)
qed

lemma is_within_directory_eq:
  "is_within_directory cwd directory target =
     Inr (prefix (abspath cwd directory) (abspath cwd target))"
  by (simp add: is_within_directory_def commonprefix_pair lcp_eq_left_iff)

lemma check_members_raises:
  assumes "m \<in> set ms"
    and "is_within_directory cwd path (join path (name m)) = Inr False"
  shows "check_members cwd path ms = Inl (Exception ''Attempted Path Traversal in Tar File'')"
  using assms
proof (induction ms)
  case Nil
  then show ?case by simp
next
  case (Cons a ms)
  show ?case
  proof (cases "prefix (abspath cwd path) (abspath cwd (join path (name a)))")
    case False
    then show ?thesis by (simp add: is_within_directory_eq)
  next
    case True
    with Cons.prems have "m \<in> set ms"
      by (auto simp: is_within_directory_eq)
    with Cons.IH Cons.prems(2) True show ?thesis
      by (simp add: is_within_directory_eq)
  qed
qed

lemma check_members_passes:
  assumes "\<forall>m \<in> set ms. is_within_directory cwd path (join path (name m)) = Inr True"
  shows "check_members cwd path ms = Inr ()"
  using assms by (induction ms) simp_all

lemma strictly_inside_prefix:
  assumes "strictly_inside d t"
  shows "prefix d t"
proof (cases "endswith d [sep]")
  case True
  with assms show ?thesis by (simp add: strictly_inside_def Let_def)
next
  case False
  with assms have "prefix (d @ [sep]) t" by (simp add: strictly_inside_def Let_def)
  then show ?thesis by (rule append_prefixD)
qed

text \<open>
  C1. If the destination path of any member of the archive fails the check of
  \<open>is_within_directory\<close> against the destination directory, \<open>safe_extract\<close> raises the
  path-traversal exception and leaves the world as it found it: no member is extracted,
  whatever the other members are, and \<open>tar.extractall\<close> is not reached.
\<close>

theorem safe_extract_fail_fast:
  assumes "m \<in> set (getmembers tar)"
    and "is_within_directory (os_getcwd E) path (join path (name m)) = Inr False"
  shows "safe_extract E tar path members numeric_owner w =
           (Inl (Exception ''Attempted Path Traversal in Tar File''), w)"
  using check_members_raises [OF assms] by (simp add: safe_extract_def)

theorem safe_extract_fail_fast_witness:
  "safe_extract example_env
     \<lparr>getmembers = [\<lparr>name = ''ssd/model.pb'', data = ''pb''\<rparr>,
                    \<lparr>name = ''../../etc/passwd'', data = ''root''\<rparr>]\<rparr>
     ''/models'' None False example_world
   = (Inl (Exception ''Attempted Path Traversal in Tar File''), example_world)"
proof -
  let ?m = "\<lparr>name = ''../../etc/passwd'', data = ''root''\<rparr>"
  let ?tar = "\<lparr>getmembers = [\<lparr>name = ''ssd/model.pb'', data = ''pb''\<rparr>, ?m]\<rparr>"
  have h1: "?m \<in> set (getmembers ?tar)" by simp
  have h2: "is_within_directory (os_getcwd example_env) ''/models'' (join ''/models'' (name ?m))
              = Inr False"
    by code_simp
  show ?thesis
    using safe_extract_fail_fast [OF h1 h2] by simp
qed

text \<open>
  C2. The check compares strings without a trailing separator: for the destination
  directory \<open>/a/b\<close> the target \<open>/a/bc/evil\<close>, in a sibling directory, passes
  \<open>is_within_directory\<close>, and \<open>safe_extract\<close> lets an archive with a member that lands
  there through to \<open>tar.extractall\<close>.
\<close>

theorem sibling_prefix_accepted:
  "is_within_directory cwd ''/a/b'' ''/a/bc/evil'' = Inr True \<and>
   abspath cwd (join ''/a/b'' ''../bc/evil'') = ''/a/bc/evil'' \<and>
   safe_extract E \<lparr>getmembers = [\<lparr>name = ''../bc/evil'', data = d\<rparr>]\<rparr> ''/a/b'' members numeric_owner w
     = tar_extractall E \<lparr>getmembers = [\<lparr>name = ''../bc/evil'', data = d\<rparr>]\<rparr> ''/a/b'' members numeric_owner w"
proof -
  have a: "abspath c ''/a/b'' = ''/a/b''" for c
    by (simp add: abspath_def isabs_def startswith_def normpath_def sep_def normpath_step_def)
  have b: "abspath c ''/a/bc/evil'' = ''/a/bc/evil''" for c
    by (simp add: abspath_def isabs_def startswith_def normpath_def sep_def normpath_step_def)
  have j: "join ''/a/b'' ''../bc/evil'' = ''/a/b/../bc/evil''"
    by (simp add: join_def startswith_def endswith_def sep_def suffix_to_prefix)
  have c: "abspath c ''/a/b/../bc/evil'' = ''/a/bc/evil''" for c
    by (simp add: abspath_def isabs_def startswith_def normpath_def sep_def normpath_step_def)
  have p: "prefix ''/a/b'' ''/a/bc/evil''" by simp
  show ?thesis
    using a b c j p by (simp add: is_within_directory_eq safe_extract_def)
qed

text \<open>
  C3. A member whose destination path, made absolute, lies strictly inside the
  destination directory passes \<open>is_within_directory\<close>; when every member of the archive
  does, \<open>safe_extract\<close> raises nothing of its own and the extraction is that of
  \<open>tar.extractall\<close> on the whole archive, with the arguments it was given.
\<close>

theorem safe_extract_inside_succeeds:
  assumes "\<forall>m \<in> set (getmembers tar).
             strictly_inside (abspath (os_getcwd E) path)
               (abspath (os_getcwd E) (join path (name m)))"
  shows "(\<forall>m \<in> set (getmembers tar).
            is_within_directory (os_getcwd E) path (join path (name m)) = Inr True) \<and>
         check_members (os_getcwd E) path (getmembers tar) = Inr () \<and>
         safe_extract E tar path members numeric_owner w
           = tar_extractall E tar path members numeric_owner w"
proof -
  have all: "\<forall>m \<in> set (getmembers tar).
               is_within_directory (os_getcwd E) path (join path (name m)) = Inr True"
    using assms by (auto simp: is_within_directory_eq dest: strictly_inside_prefix)
  then have "check_members (os_getcwd E) path (getmembers tar) = Inr ()"
    by (rule check_members_passes)
  with all show ?thesis by (simp add: safe_extract_def)
qed

theorem safe_extract_inside_succeeds_witness:
  "safe_extract example_env example_tar ''/models'' None False example_world
     = (Inr (), example_world\<lparr>files := [''/models/ssd/frozen_inference_graph.pb'' \<mapsto> ''pb'']\<rparr>)"
proof -
  have h: "\<forall>m \<in> set (getmembers example_tar).
             strictly_inside (abspath (os_getcwd example_env) ''/models'')
               (abspath (os_getcwd example_env) (join ''/models'' (name m)))"
    by (simp add: example_tar_def example_env_def strictly_inside_def join_def abspath_def
          isabs_def startswith_def endswith_def normpath_def sep_def normpath_step_def
          suffix_to_prefix)
  have e: "tar_extractall example_env example_tar ''/models'' None False example_world
             = (Inr (), example_world\<lparr>files := [''/models/ssd/frozen_inference_graph.pb'' \<mapsto> ''pb'']\<rparr>)"
    by (simp add: example_env_def example_extractall_def example_tar_def example_world_def
          join_def startswith_def endswith_def sep_def suffix_to_prefix)
  show ?thesis
    using safe_extract_inside_succeeds [OF h, of None False example_world] e by simp
qed

text \<open>
  C8. For a member whose name is an absolute path, \<open>join\<close> drops the destination
  directory, so the check is between the destination directory and the member's own
  absolute path; when the absolute destination directory is not a string prefix of
  that path, \<open>safe_extract\<close> raises the path-traversal exception and the world is as
  before: the member is not extracted.
\<close>

theorem safe_extract_absolute_member:
  assumes "m \<in> set (getmembers tar)"
    and "startswith (name m) [sep]"
    and "\<not> prefix (abspath (os_getcwd E) path) (abspath (os_getcwd E) (name m))"
  shows "join path (name m) = name m \<and>
         is_within_directory (os_getcwd E) path (join path (name m)) = Inr False \<and>
         safe_extract E tar path members numeric_owner w =
           (Inl (Exception ''Attempted Path Traversal in Tar File''), w)"
proof -
  have j: "join path (name m) = name m"
    using assms(2) by (simp add: join_def)
  have f: "is_within_directory (os_getcwd E) path (join path (name m)) = Inr False"
    using assms(3) j by (simp add: is_within_directory_eq)
  show ?thesis
    using j f check_members_raises [OF assms(1) f] by (simp add: safe_extract_def)
qed

theorem safe_extract_absolute_member_witness:
  "safe_extract example_env \<lparr>getmembers = [\<lparr>name = ''/etc/passwd'', data = ''root''\<rparr>]\<rparr>
     ''/models'' None False example_world
   = (Inl (Exception ''Attempted Path Traversal in Tar File''), example_world)"
proof -
  let ?m = "\<lparr>name = ''/etc/passwd'', data = ''root''\<rparr>"
  have h1: "?m \<in> set (getmembers \<lparr>getmembers = [?m]\<rparr>)" by simp
  have h2: "startswith (name ?m) [sep]" by (simp add: startswith_def sep_def)
  have h3: "\<not> prefix (abspath (os_getcwd example_env) ''/models'')
                (abspath (os_getcwd example_env) (name ?m))"
    by (simp add: abspath_def isabs_def startswith_def normpath_def sep_def normpath_step_def)
  show ?thesis
    using safe_extract_absolute_member [OF h1 h2 h3] by simp
qed


subsection \<open>Downloading\<close>

lemma download_loop_streams:
  assumes "total_length \<noteq> 0" and "files w f = Some old"
  shows "download_loop f total_length dl chunks w =
           (Inr (), w\<lparr>files := (files w)(f \<mapsto> old @ concat chunks),
                      trace := trace w @ stream_events f total_length dl chunks\<rparr>)"
  using assms(2)
proof (induction chunks arbitrary: w dl old)
  case Nil
  then have "(files w)(f \<mapsto> old) = files w" by (simp add: fun_upd_idem)
  then show ?case by (simp add: io_return_def)
next
  case (Cons c cs)
  let ?w1 = "log StdoutFlush (log (StdoutProgress (dl + int (length c)) total_length)
               (log (FileWrite f c) (w\<lparr>files := (files w)(f \<mapsto> old @ c)\<rparr>)))"
  have f1: "files ?w1 f = Some (old @ c)" by (simp add: log_def)
  have step: "download_loop f total_length dl (c # cs) w =
                download_loop f total_length (dl + int (length c)) cs ?w1"
    using assms(1) Cons.prems
    by (simp add: io_bind_def file_write_def stdout_flush_def Let_def)
  have "download_loop f total_length dl (c # cs) w =
          download_loop f total_length (dl + int (length c)) cs ?w1"
    by (rule step)
  also have "\<dots> = (Inr (), ?w1\<lparr>files := (files ?w1)(f \<mapsto> (old @ c) @ concat cs),
                 trace := trace ?w1
                    @ stream_events f total_length (dl + int (length c)) cs\<rparr>)"
    by (rule Cons.IH [OF f1])
  also have "\<dots> = (Inr (), w\<lparr>files := (files w)(f \<mapsto> old @ concat (c # cs)),
                 trace := trace w @ stream_events f total_length dl (c # cs)\<rparr>)"
    by (simp add: log_def)
  finally show ?case .
qed

lemma download_file_open_fails:
  assumes "os_open_wb E file_dest_path w = Some e"
  shows "download_file E file_url file_dest_path silent w =
           (Inl e, w\<lparr>trace := trace w @ [FileOpen file_dest_path]\<rparr>)"
  using assms by (simp add: download_file_def log_def)

lemma download_file_one_shot:
  assumes "requests_get E file_url = Inr resp"
    and "headers resp ''content-length'' = None \<or> silent"
    and "os_open_wb E file_dest_path w = None"
  shows "download_file E file_url file_dest_path silent w =
           (Inr (),
            w\<lparr>files := (files w)(file_dest_path \<mapsto> content resp),
              trace := trace w @ [FileOpen file_dest_path]
                 @ (if silent then []
                    else [StdoutWrite (''Downloading '' @ file_dest_path @ [CHR 0x0A])])
                 @ [HttpGet file_url, FileWrite file_dest_path (content resp),
                    FileClose file_dest_path]\<rparr>)"
proof (cases silent)
  case True
  then show ?thesis
    using assms(1) assms(3)
    by (simp add: download_file_def io_finally_def io_bind_def maybe_print_def io_return_def
          http_get_def download_body_def open_wb_def file_write_def file_close_def log_def
          split: option.split)
next
  case False
  with assms(2) have "headers resp ''content-length'' = None" by simp
  with False show ?thesis
    using assms(1) assms(3)
    by (simp add: download_file_def io_finally_def io_bind_def maybe_print_def print_def
          http_get_def download_body_def open_wb_def file_write_def file_close_def log_def)
qed

lemma download_file_streamed:
  assumes "requests_get E file_url = Inr resp"
    and "headers resp ''content-length'' = Some txt"
    and "py_int txt = Some total_length"
    and "total_length \<noteq> 0"
    and "os_open_wb E file_dest_path w = None"
  shows "download_file E file_url file_dest_path False w =
           (Inr (),
            w\<lparr>files := (files w)(file_dest_path \<mapsto> concat (iter_content resp 4096)),
              trace := trace w
                 @ [FileOpen file_dest_path,
                    StdoutWrite (''Downloading '' @ file_dest_path @ [CHR 0x0A]),
                    HttpGet file_url]
                 @ stream_events file_dest_path total_length 0 (iter_content resp 4096)
                 @ [StdoutWrite [CHR 0x0A], StdoutFlush, FileClose file_dest_path]\<rparr>)"
proof -
  let ?w3 = "log (HttpGet file_url)
               (log (StdoutWrite (''Downloading '' @ file_dest_path @ [CHR 0x0A]))
                  (open_wb file_dest_path w))"
  have f: "files ?w3 file_dest_path = Some []" by (simp add: log_def open_wb_def)
  have body: "download_body file_dest_path False resp ?w3 =
                (case download_loop file_dest_path total_length 0 (iter_content resp 4096) ?w3 of
                   (Inl e, w') \<Rightarrow> (Inl e, w')
                 | (Inr x, w') \<Rightarrow> (Inr (), log StdoutFlush (log (StdoutWrite [CHR 0x0A]) w')))"
    using assms(2,3)
    by (simp add: download_body_def io_bind_def stdout_write_def stdout_flush_def
          split: prod.split sum.split)
  have whole: "download_file E file_url file_dest_path False w =
                 (case download_body file_dest_path False resp ?w3 of
                    (r, w') \<Rightarrow> (r, file_close file_dest_path w'))"
    using assms(1) assms(5)
    by (simp add: download_file_def io_finally_def io_bind_def maybe_print_def print_def
          http_get_def)
  show ?thesis
    unfolding whole body download_loop_streams [OF assms(4) f]
    by (simp add: log_def open_wb_def file_close_def)
qed


lemma file_writes_stream_events:
  "file_writes p (stream_events p total_length dl chunks) = chunks"
  by (induction chunks arbitrary: dl) simp_all

text \<open>
  When the content-length header is a non-zero integer, the file holds the same bytes
  after a silent and after a verbose download, up to the difference between
  \<open>content\<close> and the chunks of \<open>iter_content\<close>.
\<close>

lemma download_file_same_bytes:
  assumes "requests_get E file_url = Inr resp"
    and "headers resp ''content-length'' = Some txt"
    and "py_int txt = Some total_length"
    and "total_length \<noteq> 0"
    and "content resp = concat (iter_content resp 4096)"
    and "os_open_wb E file_dest_path w = None"
  shows "files (snd (download_file E file_url file_dest_path True w)) =
         files (snd (download_file E file_url file_dest_path False w))"
  using download_file_one_shot [OF assms(1) _ assms(6), of True]
    download_file_streamed [OF assms(1) assms(2) assms(3) assms(4) assms(6)] assms(5)
  by simp






text \<open>
  C10. The bytes left in the destination file should not depend on \<open>silent\<close>. They do
  when the content-length header is zero or is not an integer: the verbose download
  stops with ZeroDivisionError after the first chunk, or with ValueError before any,
  where the silent one writes the whole body.
\<close>

theorem download_file_silent_changes_bytes:
  "content zero_length_response = concat (iter_content zero_length_response 4096) \<and>
   files (snd (download_file (example_env\<lparr>requests_get := \<lambda>url. Inr zero_length_response\<rparr>)
                 ''http://zoo/m.tar.gz'' ''/models/m.tar.gz'' True example_world))
      ''/models/m.tar.gz'' = Some ''ab'' \<and>
   download_file (example_env\<lparr>requests_get := \<lambda>url. Inr zero_length_response\<rparr>)
       ''http://zoo/m.tar.gz'' ''/models/m.tar.gz'' False example_world
     = (Inl ZeroDivisionError,
        \<lparr>files = [''/models/m.tar.gz'' \<mapsto> ''a''], dirs = {},
         trace = [FileOpen ''/models/m.tar.gz'',
                  StdoutWrite (''Downloading /models/m.tar.gz'' @ [CHR 0x0A]),
                  HttpGet ''http://zoo/m.tar.gz'',
                  FileWrite ''/models/m.tar.gz'' ''a'',
                  FileClose ''/models/m.tar.gz'']\<rparr>) \<and>
   content repeated_length_response = concat (iter_content repeated_length_response 4096) \<and>
   files (snd (download_file (example_env\<lparr>requests_get := \<lambda>url. Inr repeated_length_response\<rparr>)
                 ''http://zoo/m.tar.gz'' ''/models/m.tar.gz'' True example_world))
      ''/models/m.tar.gz'' = Some ''ab'' \<and>
   download_file (example_env\<lparr>requests_get := \<lambda>url. Inr repeated_length_response\<rparr>)
       ''http://zoo/m.tar.gz'' ''/models/m.tar.gz'' False example_world
     = (Inl ValueError,
        \<lparr>files = [''/models/m.tar.gz'' \<mapsto> ''''], dirs = {},
         trace = [FileOpen ''/models/m.tar.gz'',
                  StdoutWrite (''Downloading /models/m.tar.gz'' @ [CHR 0x0A]),
                  HttpGet ''http://zoo/m.tar.gz'',
                  FileClose ''/models/m.tar.gz'']\<rparr>)"
proof -
  have z: "py_int ''0'' = Some 0" by code_simp
  have r: "py_int ''2, 2'' = None" by code_simp
  show ?thesis
    using z r
    by (simp add: example_env_def zero_length_response_def repeated_length_response_def
          example_world_def download_file_def io_finally_def io_bind_def maybe_print_def
          print_def io_return_def io_raise_def http_get_def download_body_def open_wb_def
          file_write_def file_close_def log_def)
qed


subsection \<open>The guard of prepare_ssd_model\<close>

text \<open>
  C6. For every model name other than \<open>ssd_inception_v2_coco_2017_11_17\<close>,
  \<open>prepare_ssd_model\<close> raises NotImplementedError and the world is as it was: no
  directory is looked up or made, nothing is requested from the network, no file is
  touched and the trace has no new entry.
\<close>

theorem prepare_ssd_model_unsupported:
  assumes "model_name \<noteq> ''ssd_inception_v2_coco_2017_11_17''"
  shows "prepare_ssd_model E model_name silent w =
           (Inl (NotImplementedError (''Model '' @ model_name @ '' is not supported yet'')), w)"
  using assms by (simp add: prepare_ssd_model_def io_raise_def)

theorem prepare_ssd_model_unsupported_witness:
  "prepare_ssd_model example_env ''ssd_mobilenet_v1_coco'' False example_world =
     (Inl (NotImplementedError ''Model ssd_mobilenet_v1_coco is not supported yet''),
      example_world)"
proof -
  have h: "''ssd_mobilenet_v1_coco'' \<noteq> ''ssd_inception_v2_coco_2017_11_17''" by simp
  show ?thesis
    using prepare_ssd_model_unsupported [OF h, of example_env False example_world] by simp
qed

text \<open>
  C9. With the default model name the guard of \<open>prepare_ssd_model\<close> is not taken: the
  call is the download followed by the conversion, and the NotImplementedError of the
  guard is not raised.
\<close>

theorem prepare_ssd_model_default_passes_guard:
  "prepare_ssd_model E default_model_name silent =
     io_bind (download_model E default_model_name silent)
       (\<lambda>_. model_to_uff E (PATHS_get_model_pb_path E default_model_name)
               (PATHS_get_model_uff_path E default_model_name) silent)"
  by (simp add: prepare_ssd_model_def default_model_name_def)

text \<open>
  In the example surroundings a call without arguments runs to the end: the archive is
  downloaded, unpacked and removed, and the converted graph is written.
\<close>

lemma prepare_ssd_model_example_run:
  "fst (prepare_ssd_model example_env default_model_name True example_world) = Inr () \<and>
   dom (files (snd (prepare_ssd_model example_env default_model_name True example_world)))
     = {''/models/ssd/frozen_inference_graph.uff'', ''/models/ssd/frozen_inference_graph.pb''}"
  by (simp add: prepare_ssd_model_def default_model_name_def download_model_def
        model_to_uff_def load_graph_def tar_open_def safe_extract_def
        example_env_def example_world_def example_tar_def example_response_def
        example_extractall_def
        download_file_def download_body_def http_get_def maybe_print_def maybe_mkdir_def
        path_exists_def makedirs_def os_remove_def open_wb_def file_write_def file_close_def
        io_bind_def io_return_def io_finally_def log_def Let_def
        is_within_directory_eq abspath_def isabs_def normpath_def normpath_step_def
        join_def startswith_def endswith_def sep_def suffix_to_prefix)



subsection \<open>Collapsing namespaces\<close>


lemma rewire_fields [simp]:
  "nname (rewire ns y n) = nname n"
  "op (rewire ns y n) = op n"
  "attrs (rewire ns y n) = attrs n"
  "inputs (rewire ns y n) = map (\<lambda>i. if in_namespace ns i then y else i) (inputs n)"
  by (simp_all add: rewire_def)

lemma absorb_fields [simp]:
  "nname (absorb ns ext n) = nname n"
  "op (absorb ns ext n) = op n"
  "attrs (absorb ns ext n) = attrs n"
  "set (inputs (absorb ns ext n)) = {i \<in> set (inputs n). \<not> in_namespace ns i} \<union> set ext"
  by (auto simp: absorb_def)







lemma collapse_namespaces_Nil [simp]: "collapse_namespaces [] g = g"
  by (simp add: collapse_namespaces_def)

lemma collapse_namespaces_Cons [simp]:
  "collapse_namespaces ((ns, r) # es) g = collapse_namespaces es (collapse_namespace ns r g)"
  by (simp add: collapse_namespaces_def)

lemma stand_in_Nil [simp]: "stand_in [] x = x"
  by (simp add: stand_in_def)

lemma stand_in_Cons [simp]:
  "stand_in ((ns, r) # es) x = stand_in es (if in_namespace ns x then nname r else x)"
  by (simp add: stand_in_def)















text \<open>The mapping of the source, entry by entry.\<close>

lemma plugin_names [simp]:
  "nname PriorBox = ''GridAnchor''" "nname NMS = ''NMS''" "nname Input = ''Input''"
  "nname concat_priorbox = ''concat_priorbox''" "nname concat_box_loc = ''concat_box_loc''"
  "nname concat_box_conf = ''concat_box_conf''"
  by (simp_all add: PriorBox_def NMS_def Input_def concat_priorbox_def concat_box_loc_def
        concat_box_conf_def create_plugin_node_def create_node_def)

lemma plugin_inputs [simp]:
  "inputs PriorBox = []" "inputs NMS = []" "inputs Input = []"
  "inputs concat_priorbox = []" "inputs concat_box_loc = []" "inputs concat_box_conf = []"
  by (simp_all add: PriorBox_def NMS_def Input_def concat_priorbox_def concat_box_loc_def
        concat_box_conf_def create_plugin_node_def create_node_def)




lemma example_graph_collapsed:
  "nodes (collapse_namespaces namespace_plugin_map example_graph) =
     [\<lparr>nname = ''FeatureExtractor/conv'', op = ''Conv2D'', attrs = [], inputs = [''Input'']\<rparr>,
      \<lparr>nname = ''detection_boxes'', op = ''Identity'', attrs = [], inputs = [''NMS'', ''NMS'']\<rparr>,
      NMS\<lparr>inputs := [''FeatureExtractor/conv'']\<rparr>, Input]"
  by code_simp

lemma headless_graph_collapsed:
  "nodes (collapse_namespaces namespace_plugin_map headless_graph) =
     [\<lparr>nname = ''FeatureExtractor/conv'', op = ''Conv2D'', attrs = [], inputs = [''Input'']\<rparr>,
      NMS\<lparr>inputs := [''FeatureExtractor/conv'']\<rparr>, Input]"
  by code_simp



subsection \<open>Removing the outputs\<close>

lemma upstream_has_consumer:
  assumes "upstream g out d"
  shows "\<exists>m \<in> set (nodes g). d \<in> set (inputs m)"
  using assms by (induction rule: upstream.induct) auto

lemma graph_outputs_iff:
  "x \<in> set (graph_outputs g) \<longleftrightarrow>
     (\<exists>n \<in> set (nodes g). nname n = x \<and> (\<forall>m \<in> set (nodes g). x \<notin> set (inputs m)))"
  by (auto simp: graph_outputs_def)

text \<open>
  C5. In \<open>ssd_unsupported_nodes_to_plugin_nodes\<close>, after collapsing, the outputs of the
  graph are removed without their exclusive dependencies: no removed output is a node
  or an output of the graph any more, and every upstream dependency node of a removed
  output, also one that only it could reach, is a node of the graph as it was.
\<close>

theorem remove_outputs_keeps_dependencies:
  assumes "out \<in> set (graph_outputs (collapse_namespaces namespace_plugin_map ssd_graph))"
    and "upstream (collapse_namespaces namespace_plugin_map ssd_graph) out d"
    and "n \<in> set (nodes (collapse_namespaces namespace_plugin_map ssd_graph))"
    and "nname n = d"
  shows "n \<in> set (nodes (ssd_unsupported_nodes_to_plugin_nodes ssd_graph)) \<and>
         out \<notin> nname ` set (nodes (ssd_unsupported_nodes_to_plugin_nodes ssd_graph)) \<and>
         out \<notin> set (graph_outputs (ssd_unsupported_nodes_to_plugin_nodes ssd_graph))"
proof -
  let ?g = "collapse_namespaces namespace_plugin_map ssd_graph"
  have r: "nodes (ssd_unsupported_nodes_to_plugin_nodes ssd_graph)
             = filter (\<lambda>n. nname n \<notin> set (graph_outputs ?g)) (nodes ?g)"
    by (simp add: ssd_unsupported_nodes_to_plugin_nodes_def remove_def Let_def)
  from upstream_has_consumer [OF assms(2)]
  have "d \<notin> set (graph_outputs ?g)" by (auto simp: graph_outputs_iff)
  then have keep: "n \<in> set (nodes (ssd_unsupported_nodes_to_plugin_nodes ssd_graph))"
    using assms(3,4) by (simp add: r)
  have gone: "out \<notin> nname ` set (nodes (ssd_unsupported_nodes_to_plugin_nodes ssd_graph))"
    using assms(1) by (auto simp: r)
  then have "out \<notin> set (graph_outputs (ssd_unsupported_nodes_to_plugin_nodes ssd_graph))"
    by (auto simp: graph_outputs_iff)
  with keep gone show ?thesis by simp
qed

text \<open>
  Two runs: in the example graph the output \<open>detection_boxes\<close> goes and
  \<open>FeatureExtractor/conv\<close>, which it reaches through \<open>NMS\<close>, stays; in the graph without
  that output, \<open>NMS\<close> is the output that goes and \<open>FeatureExtractor/conv\<close>, its input, stays.
\<close>

theorem remove_outputs_keeps_dependencies_witness:
  "\<lparr>nname = ''FeatureExtractor/conv'', op = ''Conv2D'', attrs = [], inputs = [''Input'']\<rparr>
     \<in> set (nodes (ssd_unsupported_nodes_to_plugin_nodes example_graph)) \<and>
   ''detection_boxes'' \<notin> nname ` set (nodes (ssd_unsupported_nodes_to_plugin_nodes example_graph)) \<and>
   \<lparr>nname = ''FeatureExtractor/conv'', op = ''Conv2D'', attrs = [], inputs = [''Input'']\<rparr>
     \<in> set (nodes (ssd_unsupported_nodes_to_plugin_nodes headless_graph)) \<and>
   ''NMS'' \<notin> nname ` set (nodes (ssd_unsupported_nodes_to_plugin_nodes headless_graph))"
proof -
  let ?g = "collapse_namespaces namespace_plugin_map example_graph"
  let ?h = "collapse_namespaces namespace_plugin_map headless_graph"
  let ?c = "\<lparr>nname = ''FeatureExtractor/conv'', op = ''Conv2D'', attrs = [], inputs = [''Input'']\<rparr>"
  let ?m = "\<lparr>nname = ''detection_boxes'', op = ''Identity'', attrs = [], inputs = [''NMS'', ''NMS'']\<rparr>"
  let ?N = "NMS\<lparr>inputs := [''FeatureExtractor/conv'']\<rparr>"
  have m: "?m \<in> set (nodes ?g)" by (simp add: example_graph_collapsed)
  have N: "?N \<in> set (nodes ?g)" by (simp add: example_graph_collapsed)
  have g1: "''detection_boxes'' \<in> set (graph_outputs ?g)"
    by (simp add: graph_outputs_def example_graph_collapsed)
  have "upstream ?g ''detection_boxes'' ''NMS''"
    by (rule upstream.direct [OF m]) simp_all
  then have g2: "upstream ?g ''detection_boxes'' ''FeatureExtractor/conv''"
    by (rule upstream.further [OF _ N]) simp_all
  have g3: "?c \<in> set (nodes ?g)" by (simp add: example_graph_collapsed)
  have g4: "nname ?c = ''FeatureExtractor/conv''" by simp
  have N': "?N \<in> set (nodes ?h)" by (simp add: headless_graph_collapsed)
  have h1: "''NMS'' \<in> set (graph_outputs ?h)"
    by (simp add: graph_outputs_def headless_graph_collapsed)
  have h2: "upstream ?h ''NMS'' ''FeatureExtractor/conv''"
    by (rule upstream.direct [OF N']) simp_all
  have h3: "?c \<in> set (nodes ?h)" by (simp add: headless_graph_collapsed)
  from remove_outputs_keeps_dependencies [OF g1 g2 g3 g4]
    remove_outputs_keeps_dependencies [OF h1 h2 h3 g4]
  show ?thesis by simp
qed

text \<open>
  With the exclusive dependencies removed as well, nothing of the example graph is left,
  as the comment in the source warns; without them only the output goes.
\<close>

lemma remove_exclusive_dependencies_example:
  "nodes (remove example_graph (graph_outputs example_graph) True) = [] \<and>
   map nname (nodes (remove example_graph (graph_outputs example_graph) False)) =
     [''FeatureExtractor/conv'', ''Preprocessor/sub'', ''image_tensor'',
      ''Postprocessor/foo'', ''Postprocessor/bar'']"
proof -
  have o: "graph_outputs example_graph = [''detection_boxes'']"
    by (simp add: graph_outputs_def example_graph_def)
  have c: "consumers example_graph ''FeatureExtractor/conv'' = [''Postprocessor/foo'']"
     "consumers example_graph ''Preprocessor/sub'' = [''FeatureExtractor/conv'']"
     "consumers example_graph ''image_tensor'' = [''Preprocessor/sub'']"
     "consumers example_graph ''Postprocessor/foo'' = [''Postprocessor/bar'', ''detection_boxes'']"
     "consumers example_graph ''Postprocessor/bar'' = [''detection_boxes'']"
     "consumers example_graph ''detection_boxes'' = []"
    by (simp_all add: consumers_def example_graph_def)
  have n: "nodes example_graph =
        [\<lparr>nname = ''FeatureExtractor/conv'', op = ''Conv2D'', attrs = [], inputs = [''Preprocessor/sub'']\<rparr>,
         \<lparr>nname = ''Preprocessor/sub'', op = ''Sub'', attrs = [], inputs = [''image_tensor'']\<rparr>,
         \<lparr>nname = ''image_tensor'', op = ''Placeholder'', attrs = [], inputs = []\<rparr>,
         \<lparr>nname = ''Postprocessor/foo'', op = ''Mul'', attrs = [], inputs = [''FeatureExtractor/conv'']\<rparr>,
         \<lparr>nname = ''Postprocessor/bar'', op = ''Add'', attrs = [], inputs = [''Postprocessor/foo'']\<rparr>,
         \<lparr>nname = ''detection_boxes'', op = ''Identity'', attrs = [],
          inputs = [''Postprocessor/foo'', ''Postprocessor/bar'']\<rparr>]"
    by (simp add: example_graph_def)
  have r1: "exclusive_round example_graph [''detection_boxes''] = [''detection_boxes'', ''Postprocessor/bar'']"
    by (simp add: exclusive_round_def c n)
  have r2: "exclusive_round example_graph [''detection_boxes'', ''Postprocessor/bar'']
      = [''detection_boxes'', ''Postprocessor/bar'', ''Postprocessor/foo'']"
    by (simp add: exclusive_round_def c n)
  have r3: "exclusive_round example_graph [''detection_boxes'', ''Postprocessor/bar'', ''Postprocessor/foo'']
      = [''detection_boxes'', ''Postprocessor/bar'', ''Postprocessor/foo'', ''FeatureExtractor/conv'']"
    by (simp add: exclusive_round_def c n)
  have r4: "exclusive_round example_graph [''detection_boxes'', ''Postprocessor/bar'', ''Postprocessor/foo'', ''FeatureExtractor/conv'']
      = [''detection_boxes'', ''Postprocessor/bar'', ''Postprocessor/foo'', ''FeatureExtractor/conv'', ''Preprocessor/sub'']"
    by (simp add: exclusive_round_def c n)
  have r5: "exclusive_round example_graph [''detection_boxes'', ''Postprocessor/bar'', ''Postprocessor/foo'', ''FeatureExtractor/conv'', ''Preprocessor/sub'']
      = [''detection_boxes'', ''Postprocessor/bar'', ''Postprocessor/foo'', ''FeatureExtractor/conv'', ''Preprocessor/sub'', ''image_tensor'']"
    by (simp add: exclusive_round_def c n)
  have r6: "exclusive_round example_graph [''detection_boxes'', ''Postprocessor/bar'', ''Postprocessor/foo'', ''FeatureExtractor/conv'', ''Preprocessor/sub'', ''image_tensor'']
      = [''detection_boxes'', ''Postprocessor/bar'', ''Postprocessor/foo'', ''FeatureExtractor/conv'', ''Preprocessor/sub'', ''image_tensor'']"
    by (simp add: exclusive_round_def c n)
  have six: "length (nodes example_graph) = Suc (Suc (Suc (Suc (Suc (Suc 0)))))"
    by (simp add: n)
  have w: "with_exclusive_dependencies example_graph [''detection_boxes'']
      = [''detection_boxes'', ''Postprocessor/bar'', ''Postprocessor/foo'', ''FeatureExtractor/conv'', ''Preprocessor/sub'', ''image_tensor'']"
    unfolding with_exclusive_dependencies_def six
    by (simp add: funpow_swap1 r1 r2 r3 r4 r5 r6)
  show ?thesis
    unfolding remove_def o
    by (simp add: w) (simp add: n)
qed


end
